theory Spec2Isabelle
  imports Main
begin

section \<open>Bytes, and the standard-library routines the JSON logger calls\<close>

text \<open>
  Go strings and byte slices are sequences of bytes; they are modelled as \<open>string\<close>
  (a \<open>char list\<close>, one \<open>char\<close> per byte).  \<open>byte\<close> reads a byte as a number.
\<close>

definition byte :: "char \<Rightarrow> nat" where
  "byte c = of_char c"

definition dquote :: char where
  "dquote = CHR 0x22"

definition backslash :: char where
  "backslash = CHR 0x5C"

text \<open>\<open>var hex = "0123456789abcdef"\<close>\<close>

definition hex :: string where
  "hex = ''0123456789abcdef''"

text \<open>
  Modelled from the spec: the constant \<open>digits\<close> is declared outside the files under
  \<open>src/\<close>.  The record formats of the spec are decimal, so it is the ten decimal digits.
\<close>

definition digits :: string where
  "digits = ''0123456789''"

text \<open>
  \<open>strconv.AppendUint(p, n, 10)\<close> and \<open>strconv.AppendInt(p, i, 10)\<close>: the decimal
  numeral of the number, appended to \<open>p\<close>.
\<close>

fun decimal :: "nat \<Rightarrow> string" where
  "decimal n = (if n < 10 then [digits ! n] else decimal (n div 10) @ [digits ! (n mod 10)])"

declare decimal.simps [simp del]

definition AppendUint :: "string \<Rightarrow> nat \<Rightarrow> string" where
  "AppendUint p n = p @ decimal n"

definition AppendInt :: "string \<Rightarrow> int \<Rightarrow> string" where
  "AppendInt p i = (if i < 0 then p @ ''-'' @ decimal (nat (- i)) else p @ decimal (nat i))"

text \<open>
  \<open>unicode/utf8\<close>: \<open>RuneSelf\<close>, \<open>RuneError\<close> and \<open>DecodeRuneInString\<close>, which returns
  the first rune of a string and the number of bytes it occupies.  \<open>utf8_first\<close> is the
  package's table \<open>first\<close> (the class of a leading byte: \<open>0xF0\<close> for ASCII, \<open>0xF1\<close>
  for an invalid leading byte, otherwise the size in the low three bits and the index of
  the accept range of the second byte in the high four), \<open>acceptRanges\<close> its table of
  the same name.
\<close>

definition RuneSelf :: nat where
  "RuneSelf = 0x80"

definition RuneError :: nat where
  "RuneError = 0xFFFD"

definition utf8_first :: "nat \<Rightarrow> nat" where
  "utf8_first b =
     (if b < 0x80 then 0xF0
      else if b < 0xC2 then 0xF1
      else if b < 0xE0 then 0x02
      else if b = 0xE0 then 0x13
      else if b < 0xED then 0x03
      else if b = 0xED then 0x23
      else if b < 0xF0 then 0x03
      else if b = 0xF0 then 0x34
      else if b < 0xF4 then 0x04
      else if b = 0xF4 then 0x44
      else 0xF1)"

definition acceptRanges :: "nat \<Rightarrow> nat \<times> nat" where
  "acceptRanges k =
     (if k = 0 then (0x80, 0xBF)
      else if k = 1 then (0xA0, 0xBF)
      else if k = 2 then (0x80, 0x9F)
      else if k = 3 then (0x90, 0xBF)
      else (0x80, 0x8F))"

definition DecodeRuneInString :: "string \<Rightarrow> nat \<times> nat" where
  "DecodeRuneInString s =
     (if length s < 1 then (RuneError, 0)
      else if 0xF0 \<le> utf8_first (byte (s ! 0)) then
        (if utf8_first (byte (s ! 0)) = 0xF0 then byte (s ! 0) else RuneError, 1)
      else if length s < utf8_first (byte (s ! 0)) mod 8 then (RuneError, 1)
      else if byte (s ! 1) < fst (acceptRanges (utf8_first (byte (s ! 0)) div 16))
              \<or> snd (acceptRanges (utf8_first (byte (s ! 0)) div 16)) < byte (s ! 1)
        then (RuneError, 1)
      else if utf8_first (byte (s ! 0)) mod 8 \<le> 2 then
        ((byte (s ! 0) mod 32) * 64 + byte (s ! 1) mod 64, 2)
      else if byte (s ! 2) < 0x80 \<or> 0xBF < byte (s ! 2) then (RuneError, 1)
      else if utf8_first (byte (s ! 0)) mod 8 \<le> 3 then
        ((byte (s ! 0) mod 16) * 4096 + (byte (s ! 1) mod 64) * 64 + byte (s ! 2) mod 64, 3)
      else if byte (s ! 3) < 0x80 \<or> 0xBF < byte (s ! 3) then (RuneError, 1)
      else
        ((byte (s ! 0) mod 8) * 262144 + (byte (s ! 1) mod 64) * 4096
           + (byte (s ! 2) mod 64) * 64 + byte (s ! 3) mod 64, 4))"

section \<open>Severities and the package-level state\<close>

text \<open>
  The severity tiers, in the order the package numbers them (\<open>infoLog = 0\<close> up to
  \<open>fatalLog = 3\<close>); \<open>sev\<close> is that number, which the code compares and indexes with.
\<close>

datatype severity = infoLog | warningLog | errorLog | fatalLog

fun sev :: "severity \<Rightarrow> nat" where
  "sev infoLog = 0"
| "sev warningLog = 1"
| "sev errorLog = 2"
| "sev fatalLog = 3"

text \<open>\<open>var lowerSeverityName = []string{...}\<close>\<close>

fun lowerSeverityName :: "severity \<Rightarrow> string" where
  "lowerSeverityName infoLog = ''info''"
| "lowerSeverityName warningLog = ''warning''"
| "lowerSeverityName errorLog = ''error''"
| "lowerSeverityName fatalLog = ''fatal''"

text \<open>
  \<open>type Json struct { buf [1024]byte; p []byte; s severity; file string; line int }\<close>.
  Field \<open>x\<close> of the struct is \<open>j_x\<close>.  A \<open>*Json\<close> is a \<open>Json option\<close>: \<open>None\<close> is the
  nil handle a filtered-out call site receives.  \<open>j_p\<close> starts as the slice \<open>buf[:65]\<close>
  and only grows by \<open>append\<close>, which never writes below index 65, so the model keeps the
  contents of \<open>p\<close> and of \<open>buf\<close> apart.
\<close>

record Json =
  j_buf :: string
  j_p :: string
  j_s :: severity
  j_file :: string
  j_line :: int

text \<open>\<open>new(Json)\<close>: the zero value.\<close>

definition new_Json :: Json where
  "new_Json = \<lparr> j_buf = replicate 1024 (CHR 0x00), j_p = [], j_s = infoLog,
                 j_file = [], j_line = 0 \<rparr>"

text \<open>
  Modelled from the spec: the clock value \<open>timeNow()\<close> returns.  The fields are what the
  accessors \<open>Date\<close>, \<open>Clock\<close>, \<open>Zone\<close>, \<open>Nanosecond\<close> and \<open>Unix\<close> of \<open>time.Time\<close>
  return for it: a calendar date and time of day, the zone offset in seconds east of UTC,
  the nanoseconds within the second and the seconds since 1970.
\<close>

record time =
  t_year :: nat
  t_month :: nat
  t_day :: nat
  t_hour :: nat
  t_minute :: nat
  t_second :: nat
  t_offset :: int
  t_nanosecond :: nat
  t_unix :: nat

text \<open>
  The state of the package: its variables under \<open>src/\<close> (\<open>JVersion\<close>, \<open>JFieldPrefix\<close>,
  \<open>JEscapeHTML\<close>, \<open>jbufpool\<close>) and the ones the code under \<open>src/\<close> reads or writes but
  that are declared elsewhere.  Field \<open>x\<close> of the \<open>logging\<close> singleton (\<open>loggingT\<close>) is
  \<open>l_x\<close>.

  Modelled from the spec: the declarations of \<open>loggingT\<close>, \<open>host\<close>, \<open>pid\<close>,
  \<open>fatalNoStacks\<close> and \<open>severityStats\<close> are not under \<open>src/\<close>.
  \<^item> \<open>l_file\<close>: one output stream per severity tier; \<open>None\<close> is a nil entry (no file
    open), \<open>Some ws\<close> an open file that has received the writes \<open>ws\<close>, oldest first
    (the spec's output primitive, "write bytes to an open file-like sink").
  \<^item> \<open>l_traceLocation\<close>: the trace-location filter, "file:line at which to force a stack
    trace to be attached"; \<open>None\<close> when it is not set.
  \<^item> \<open>l_verbosity\<close>, \<open>l_filterLength\<close>, \<open>l_vmap\<close>, \<open>l_pcs\<close>: the global verbosity, the
    number of vmodule rules, the call-site cache and the buffer for the caller's program
    counter.
  \<^item> \<open>severityStats\<close>: per-severity counters of lines and bytes.
  \<^item> \<open>Stderr\<close>: the writes \<open>os.Stderr\<close> has received, oldest first.
  \<^item> \<open>flag_Parsed\<close>: what \<open>flag.Parsed()\<close> returns.
  \<^item> \<open>timeoutFlushed\<close>: the calls of \<open>timeoutFlush\<close> so far, each with its timeout in
    seconds ("flush everything with a bounded timeout").
  The mutex \<open>l.mu\<close> is not modelled: the model runs one call at a time.
\<close>

record glog =
  JVersion :: string
  JFieldPrefix :: string
  JEscapeHTML :: bool
  host :: string
  pid :: int
  jbufpool :: "Json list"
  fatalNoStacks :: nat
  severityStats :: "severity \<Rightarrow> (int \<times> int) option"
  Stderr :: "string list"
  flag_Parsed :: bool
  timeoutFlushed :: "nat list"
  l_toStderr :: bool
  l_alsoToStderr :: bool
  l_stderrThreshold :: severity
  l_traceLocation :: "(string \<times> int) option"
  l_file :: "severity \<Rightarrow> string list option"
  l_verbosity :: int
  l_filterLength :: int
  l_vmap :: "nat \<Rightarrow> int option"
  l_pcs :: "nat list"

text \<open>
  A frame of the goroutine's stack: the return program counter of the call the function
  is making, and the file and line of that call.
\<close>

record frame =
  f_pc :: nat
  f_file :: string
  f_line :: int

text \<open>
  What a call observes of the Go runtime and of the helpers of the package that are not
  under \<open>src/\<close>; they are parameters of the model.
  \<^item> \<open>rt_stack\<close>: the stack of the goroutine while \<open>json\<close> runs, innermost frame first:
    the frame of \<open>json\<close> itself, then the frame of the function that called \<open>json\<close> (one
    of the wrappers \<open>J\<close>, \<open>JInfo\<close>, \<open>JWarning\<close>, \<open>JError\<close>, \<open>JFatal\<close>), then the frame of
    the function that called the wrapper (the call site of the logging statement), and
    so on outwards.
  \<^item> \<open>rt_timeNow\<close>: \<open>timeNow()\<close>.
  \<^item> \<open>rt_stacks\<close>: \<open>stacks(all)\<close>, the stack trace of the current goroutine or, for
    \<open>all = True\<close>, of every goroutine.
  \<^item> \<open>rt_createFiles\<close>: \<open>l.createFiles(s)\<close>, which returns an error (\<open>Inl\<close>) or the
    state with the files created.
  \<^item> \<open>rt_setV\<close>: \<open>l.setV(pc)\<close>, which resolves the verbosity threshold of a program
    counter (from the vmodule rules and the file the counter lies in) and caches it.
\<close>

record runtime =
  rt_stack :: "frame list"
  rt_timeNow :: time
  rt_stacks :: "bool \<Rightarrow> string"
  rt_createFiles :: "severity \<Rightarrow> glog \<Rightarrow> string + glog"
  rt_setV :: "nat \<Rightarrow> glog \<Rightarrow> int \<times> glog"

text \<open>
  \<open>runtime.Caller(skip)\<close> reports the file and line of a frame, "with 0 identifying the
  caller of Caller", or \<open>ok = false\<close> (\<open>None\<close>) when the stack is not that deep.
  \<open>runtime.Callers(skip, pc)\<close> records the return program counters of the frames, "with 0
  identifying the frame for Callers itself and 1 identifying the caller of Callers"; the
  model has it for \<open>skip \<ge> 1\<close>.  Both are called from \<open>json\<close>, whose frame is the first
  of \<open>rt_stack\<close>.
\<close>

definition Caller :: "runtime \<Rightarrow> nat \<Rightarrow> (string \<times> int) option" where
  "Caller rt skip =
     (if skip < length (rt_stack rt)
      then Some (f_file (rt_stack rt ! skip), f_line (rt_stack rt ! skip))
      else None)"

definition Callers :: "runtime \<Rightarrow> nat \<Rightarrow> nat list" where
  "Callers rt skip = map f_pc (drop (skip - 1) (rt_stack rt))"

section \<open>The JSON string encoder\<close>

text \<open>
  \<open>safeSet\<close> and \<open>htmlSafeSet\<close>: the two tables of 128 booleans.  Each lists the 96
  bytes from the space (\<open>0x20\<close>) to \<open>0x7f\<close>, all \<open>true\<close> but the double quote and the
  backslash (and, in \<open>htmlSafeSet\<close>, \<open><\<close>, \<open>>\<close> and \<open>&\<close>); the entries of the control
  bytes below \<open>0x20\<close> are not listed and so are \<open>false\<close>.  The code indexes them only with
  bytes below \<open>RuneSelf\<close>.
\<close>

definition safeSet :: "char \<Rightarrow> bool" where
  "safeSet b = (0x20 \<le> byte b \<and> byte b \<le> 0x7F \<and> b \<noteq> dquote \<and> b \<noteq> backslash)"

definition htmlSafeSet :: "char \<Rightarrow> bool" where
  "htmlSafeSet b =
     (0x20 \<le> byte b \<and> byte b \<le> 0x7F \<and> b \<noteq> dquote \<and> b \<noteq> backslash
        \<and> b \<noteq> CHR ''&'' \<and> b \<noteq> CHR ''<'' \<and> b \<noteq> CHR ''>'')"

text \<open>
  \<open>if start < i { j.p = append(j.p, s[start:i]...) }\<close>, the step that copies the bytes
  needing no escape that are pending before position \<open>i\<close>.
\<close>

definition append_pending :: "string \<Rightarrow> nat \<Rightarrow> nat \<Rightarrow> string \<Rightarrow> string" where
  "append_pending s start i p = (if start < i then p @ take (i - start) (drop start s) else p)"

text \<open>The \<open>switch b\<close> of \<open>string\<close>: what is appended for an ASCII byte that is not safe.\<close>

definition escape_byte :: "char \<Rightarrow> string" where
  "escape_byte b =
     (if b = backslash \<or> b = dquote then [backslash, b]
      else if b = CHR 0x0A then [backslash, CHR ''n'']
      else if b = CHR 0x0D then [backslash, CHR ''r'']
      else if b = CHR 0x09 then [backslash, CHR ''t'']
      else [backslash, CHR ''u'', CHR ''0'', CHR ''0'', hex ! (byte b div 16), hex ! (byte b mod 16)])"

text \<open>
  The loop of \<open>func (j *Json) string(s string, escapeHTML bool)\<close>, with the loop
  variables \<open>i\<close> and \<open>start\<close> and the buffer \<open>j.p\<close> as arguments; it returns the buffer
  after the copy that follows the loop (\<open>if start < len(s) { append s[start:] }\<close>).
  \<open>b >> 4\<close> and \<open>b & 0xF\<close> are \<open>div 16\<close> and \<open>mod 16\<close>.
\<close>

function string_loop :: "string \<Rightarrow> bool \<Rightarrow> nat \<Rightarrow> nat \<Rightarrow> string \<Rightarrow> string" where
  "string_loop s escapeHTML i start p =
     (if i < length s then
        (if byte (s ! i) < RuneSelf then
           (if htmlSafeSet (s ! i) \<or> (\<not> escapeHTML \<and> safeSet (s ! i)) then
              string_loop s escapeHTML (i + 1) start p
            else
              string_loop s escapeHTML (i + 1) (i + 1)
                (append_pending s start i p @ escape_byte (s ! i)))
         else if fst (DecodeRuneInString (drop i s)) = RuneError
                 \<and> snd (DecodeRuneInString (drop i s)) = 1 then
           string_loop s escapeHTML
             (i + snd (DecodeRuneInString (drop i s))) (i + snd (DecodeRuneInString (drop i s)))
             (append_pending s start i p @ [backslash, CHR ''u'', CHR ''f'', CHR ''f'', CHR ''f'', CHR ''d''])
         else if fst (DecodeRuneInString (drop i s)) = 0x2028
                 \<or> fst (DecodeRuneInString (drop i s)) = 0x2029 then
           string_loop s escapeHTML
             (i + snd (DecodeRuneInString (drop i s))) (i + snd (DecodeRuneInString (drop i s)))
             (append_pending s start i p @ [backslash, CHR ''u'', CHR ''2'', CHR ''0'', CHR ''2'',
                 hex ! (fst (DecodeRuneInString (drop i s)) mod 16)])
         else
           string_loop s escapeHTML (i + snd (DecodeRuneInString (drop i s))) start p)
      else (if start < length s then p @ drop start s else p))"
  by pat_completeness auto
termination
proof (relation "measure (\<lambda>(s, escapeHTML, i, start, p). length s - i)")
  show "wf (measure (\<lambda>(s, escapeHTML, i, start, p). length s - i))"
    by simp
next
  fix s :: string and escapeHTML :: bool and i start :: nat and p :: string
  assume "i < length s"
  then show "((s, escapeHTML, i + 1, start, p), (s, escapeHTML, i, start, p))
      \<in> measure (\<lambda>(s, escapeHTML, i, start, p). length s - i)"
    by simp
next
  fix s :: string and escapeHTML :: bool and i start :: nat and p :: string
  assume "i < length s"
  then show "((s, escapeHTML, i + 1, i + 1, append_pending s start i p @ escape_byte (s ! i)),
       (s, escapeHTML, i, start, p)) \<in> measure (\<lambda>(s, escapeHTML, i, start, p). length s - i)"
    by simp
next
  fix s :: string and escapeHTML :: bool and i start :: nat and p :: string
  assume "i < length s" and "fst (DecodeRuneInString (drop i s)) = RuneError
      \<and> snd (DecodeRuneInString (drop i s)) = 1"
  then show "((s, escapeHTML, i + snd (DecodeRuneInString (drop i s)),
        i + snd (DecodeRuneInString (drop i s)),
        append_pending s start i p @ [backslash, CHR ''u'', CHR ''f'', CHR ''f'', CHR ''f'', CHR ''d'']),
       (s, escapeHTML, i, start, p)) \<in> measure (\<lambda>(s, escapeHTML, i, start, p). length s - i)"
    by simp
next
  fix s :: string and escapeHTML :: bool and i start :: nat and p :: string
  assume "i < length s"
  then have "1 \<le> snd (DecodeRuneInString (drop i s))"
    by (cases "drop i s") (simp_all add: DecodeRuneInString_def)
  with \<open>i < length s\<close>
  show "((s, escapeHTML, i + snd (DecodeRuneInString (drop i s)),
        i + snd (DecodeRuneInString (drop i s)),
        append_pending s start i p @ [backslash, CHR ''u'', CHR ''2'', CHR ''0'', CHR ''2'',
           hex ! (fst (DecodeRuneInString (drop i s)) mod 16)]),
       (s, escapeHTML, i, start, p)) \<in> measure (\<lambda>(s, escapeHTML, i, start, p). length s - i)"
    by simp
next
  fix s :: string and escapeHTML :: bool and i start :: nat and p :: string
  assume "i < length s"
  then have "1 \<le> snd (DecodeRuneInString (drop i s))"
    by (cases "drop i s") (simp_all add: DecodeRuneInString_def)
  with \<open>i < length s\<close>
  show "((s, escapeHTML, i + snd (DecodeRuneInString (drop i s)), start, p),
       (s, escapeHTML, i, start, p)) \<in> measure (\<lambda>(s, escapeHTML, i, start, p). length s - i)"
    by simp
qed

declare string_loop.simps [simp del]

text \<open>\<open>func (j *Json) string(s string, escapeHTML bool)\<close>\<close>

definition j_string :: "string \<Rightarrow> bool \<Rightarrow> Json \<Rightarrow> Json" where
  "j_string s escapeHTML j =
     j\<lparr>j_p := string_loop s escapeHTML 0 0 (j_p j @ [dquote]) @ [dquote]\<rparr>"

section \<open>The field builders\<close>

text \<open>\<open>j.p = append(j.p, bs...)\<close>\<close>

definition j_append :: "Json \<Rightarrow> string \<Rightarrow> Json" where
  "j_append j bs = j\<lparr>j_p := j_p j @ bs\<rparr>"

text \<open>\<open>j.p = strconv.AppendInt(j.p, i, 10)\<close> and \<open>j.p = strconv.AppendUint(j.p, n, 10)\<close>\<close>

definition j_AppendInt :: "int \<Rightarrow> Json \<Rightarrow> Json" where
  "j_AppendInt i j = j\<lparr>j_p := AppendInt (j_p j) i\<rparr>"

definition j_AppendUint :: "nat \<Rightarrow> Json \<Rightarrow> Json" where
  "j_AppendUint n j = j\<lparr>j_p := AppendUint (j_p j) n\<rparr>"

text \<open>
  Every builder is a method on \<open>*Json\<close> that returns its receiver; it reads the package
  variables \<open>JFieldPrefix\<close> and \<open>JEscapeHTML\<close> from the state \<open>g\<close>.
\<close>

fun Int64 :: "glog \<Rightarrow> string \<Rightarrow> int \<Rightarrow> Json option \<Rightarrow> Json option" where
  "Int64 g name i None = None"
| "Int64 g name i (Some j) =
     (let j = j_append j [CHR '','', dquote];
          j = (if JFieldPrefix g \<noteq> [] then j_append j (JFieldPrefix g) else j);
          j = j_append j name;
          j = j_append j [dquote, CHR '':'']
      in Some (j_AppendInt i j))"

fun Uint64 :: "glog \<Rightarrow> string \<Rightarrow> nat \<Rightarrow> Json option \<Rightarrow> Json option" where
  "Uint64 g name i None = None"
| "Uint64 g name i (Some j) =
     (let j = j_append j [CHR '','', dquote];
          j = (if JFieldPrefix g \<noteq> [] then j_append j (JFieldPrefix g) else j);
          j = j_append j name;
          j = j_append j [dquote, CHR '':'']
      in Some (j_AppendUint i j))"

text \<open>
  \<open>Int\<close> (here \<open>Int'\<close>), \<open>Int8\<close>, \<open>Int16\<close>, \<open>Int32\<close> convert their argument to \<open>int64\<close> and call \<open>Int64\<close>;
  \<open>Uint\<close>, \<open>Uint8\<close>, \<open>Uint16\<close>, \<open>Uint32\<close> convert to \<open>uint64\<close> and call \<open>Uint64\<close>.  The
  conversions widen, so they keep the value.
\<close>

definition Int' :: "glog \<Rightarrow> string \<Rightarrow> int \<Rightarrow> Json option \<Rightarrow> Json option" where
  "Int' g name i j = Int64 g name i j"

definition Int8 :: "glog \<Rightarrow> string \<Rightarrow> int \<Rightarrow> Json option \<Rightarrow> Json option" where
  "Int8 g name i j = Int64 g name i j"

definition Int16 :: "glog \<Rightarrow> string \<Rightarrow> int \<Rightarrow> Json option \<Rightarrow> Json option" where
  "Int16 g name i j = Int64 g name i j"

definition Int32 :: "glog \<Rightarrow> string \<Rightarrow> int \<Rightarrow> Json option \<Rightarrow> Json option" where
  "Int32 g name i j = Int64 g name i j"

definition Uint :: "glog \<Rightarrow> string \<Rightarrow> nat \<Rightarrow> Json option \<Rightarrow> Json option" where
  "Uint g name i j = Uint64 g name i j"

definition Uint8 :: "glog \<Rightarrow> string \<Rightarrow> nat \<Rightarrow> Json option \<Rightarrow> Json option" where
  "Uint8 g name i j = Uint64 g name i j"

definition Uint16 :: "glog \<Rightarrow> string \<Rightarrow> nat \<Rightarrow> Json option \<Rightarrow> Json option" where
  "Uint16 g name i j = Uint64 g name i j"

definition Uint32 :: "glog \<Rightarrow> string \<Rightarrow> nat \<Rightarrow> Json option \<Rightarrow> Json option" where
  "Uint32 g name i j = Uint64 g name i j"

text \<open>
  The float builders.  Floating-point formatting is not modelled: \<open>AppendFloat p f bits\<close>
  stands for \<open>strconv.AppendFloat(p, f, 'f', -1, bits)\<close> and is a parameter, as is the
  type \<open>'f\<close> of the floats.
\<close>

fun Float32 :: "(string \<Rightarrow> 'f \<Rightarrow> nat \<Rightarrow> string) \<Rightarrow> glog \<Rightarrow> string \<Rightarrow> 'f \<Rightarrow> Json option \<Rightarrow> Json option" where
  "Float32 AppendFloat g name f None = None"
| "Float32 AppendFloat g name f (Some j) =
     (let j = j_append j [CHR '','', dquote];
          j = (if JFieldPrefix g \<noteq> [] then j_append j (JFieldPrefix g) else j);
          j = j_append j name;
          j = j_append j [dquote, CHR '':'']
      in Some (j\<lparr>j_p := AppendFloat (j_p j) f 32\<rparr>))"

fun Float64 :: "(string \<Rightarrow> 'f \<Rightarrow> nat \<Rightarrow> string) \<Rightarrow> glog \<Rightarrow> string \<Rightarrow> 'f \<Rightarrow> Json option \<Rightarrow> Json option" where
  "Float64 AppendFloat g name f None = None"
| "Float64 AppendFloat g name f (Some j) =
     (let j = j_append j [CHR '','', dquote];
          j = (if JFieldPrefix g \<noteq> [] then j_append j (JFieldPrefix g) else j);
          j = j_append j name;
          j = j_append j [dquote, CHR '':'']
      in Some (j\<lparr>j_p := AppendFloat (j_p j) f 64\<rparr>))"

fun Bool :: "glog \<Rightarrow> string \<Rightarrow> bool \<Rightarrow> Json option \<Rightarrow> Json option" where
  "Bool g name b None = None"
| "Bool g name b (Some j) =
     (let j = j_append j [CHR '','', dquote];
          j = (if JFieldPrefix g \<noteq> [] then j_append j (JFieldPrefix g) else j);
          j = j_append j name
      in Some (if b then j_append j [dquote, CHR '':'', CHR ''t'', CHR ''r'', CHR ''u'', CHR ''e'']
               else j_append j [dquote, CHR '':'', CHR ''f'', CHR ''a'', CHR ''l'', CHR ''s'', CHR ''e'']))"

text \<open>\<open>Err\<close> receives the text \<open>err.Error()\<close> of its argument.\<close>

fun Err :: "glog \<Rightarrow> string \<Rightarrow> Json option \<Rightarrow> Json option" where
  "Err g err None = None"
| "Err g err (Some j) =
     (let j = j_append j ([CHR '','', dquote] @ ''error'' @ [dquote, CHR '':''])
      in Some (j_string err (JEscapeHTML g) j))"

fun Str :: "glog \<Rightarrow> string \<Rightarrow> string \<Rightarrow> Json option \<Rightarrow> Json option" where
  "Str g name s None = None"
| "Str g name s (Some j) =
     (let j = j_append j [CHR '','', dquote];
          j = (if JFieldPrefix g \<noteq> [] then j_append j (JFieldPrefix g) else j);
          j = j_append j name;
          j = j_append j [dquote, CHR '':'']
      in Some (j_string s (JEscapeHTML g) j))"

text \<open>
  The loop of \<open>Strs\<close>, \<open>for i, s := range ss\<close>: the test \<open>i < len(ss)-1\<close> holds exactly
  when elements remain after \<open>s\<close>.
\<close>

fun Strs_loop :: "bool \<Rightarrow> string list \<Rightarrow> Json \<Rightarrow> Json" where
  "Strs_loop escapeHTML [] j = j"
| "Strs_loop escapeHTML (s # ss) j =
     (let j = j_string s escapeHTML j;
          j = (if ss \<noteq> [] then j_append j [CHR '',''] else j)
      in Strs_loop escapeHTML ss j)"

fun Strs :: "glog \<Rightarrow> string \<Rightarrow> string list \<Rightarrow> Json option \<Rightarrow> Json option" where
  "Strs g name ss None = None"
| "Strs g name ss (Some j) =
     (let j = j_append j [dquote];
          j = (if JFieldPrefix g \<noteq> [] then j_append j (JFieldPrefix g) else j);
          j = j_append j name;
          j = j_append j [dquote, CHR '':'', CHR ''[''];
          j = Strs_loop (JEscapeHTML g) ss j
      in Some (j_append j [CHR '']'', CHR '','']))"

section \<open>The record header\<close>

text \<open>
  \<open>j.buf[i] = c\<close> and \<open>j.p = j.buf[:n]\<close>.  The array \<open>buf\<close> is a list of 1024 bytes and
  a store is a list update; every index the header uses is below 65.
\<close>

definition buf_set :: "nat \<Rightarrow> char \<Rightarrow> Json \<Rightarrow> Json" where
  "buf_set i c j = j\<lparr>j_buf := (j_buf j)[i := c]\<rparr>"

definition buf_slice :: "nat \<Rightarrow> Json \<Rightarrow> Json" where
  "buf_slice n j = j\<lparr>j_p := take n (j_buf j)\<rparr>"

text \<open>\<open>func (j *Json) twoDigits(i, d int)\<close>\<close>

definition twoDigits :: "nat \<Rightarrow> nat \<Rightarrow> Json \<Rightarrow> Json" where
  "twoDigits i d j = buf_set i (digits ! (d div 10 mod 10)) (buf_set (i + 1) (digits ! (d mod 10)) j)"

text \<open>
  \<open>func (j *Json) timestamp(i int, now time.Time) int\<close> has three loops: the digits of
  the microseconds (\<open>for ; d != 0; k--\<close>), the zeros that pad them to six
  (\<open>for ; k != 0; k--\<close>) and the digits of the seconds (\<open>for d != 0\<close>).  \<open>Nanosecond()\<close>
  is below \<open>10^9\<close>, so the microseconds have at most six digits and \<open>k\<close> stays a natural
  number.
\<close>

fun timestamp_micros :: "string \<Rightarrow> nat \<Rightarrow> nat \<Rightarrow> nat \<Rightarrow> string \<times> nat \<times> nat" where
  "timestamp_micros buf i d k =
     (if d \<noteq> 0 then timestamp_micros (buf[i - 1 := digits ! (d mod 10)]) (i - 1) (d div 10) (k - 1)
      else (buf, i, k))"

declare timestamp_micros.simps [simp del]

fun timestamp_zeros :: "string \<Rightarrow> nat \<Rightarrow> nat \<Rightarrow> string \<times> nat" where
  "timestamp_zeros buf i k =
     (if k \<noteq> 0 then timestamp_zeros (buf[i - 1 := CHR ''0'']) (i - 1) (k - 1) else (buf, i))"

declare timestamp_zeros.simps [simp del]

fun timestamp_secs :: "string \<Rightarrow> nat \<Rightarrow> nat \<Rightarrow> string \<times> nat" where
  "timestamp_secs buf i d =
     (if d \<noteq> 0 then timestamp_secs (buf[i - 1 := digits ! (d mod 10)]) (i - 1) (d div 10)
      else (buf, i))"

declare timestamp_secs.simps [simp del]

definition timestamp :: "nat \<Rightarrow> time \<Rightarrow> Json \<Rightarrow> Json \<times> nat" where
  "timestamp i now j =
     (case timestamp_micros (j_buf j) (i + 17) (t_nanosecond now div 1000) 6 of
        (buf, i, k) \<Rightarrow>
          (case timestamp_zeros buf i k of
             (buf, i) \<Rightarrow>
               (case timestamp_secs (buf[i - 1 := CHR ''.'']) (i - 1) (t_unix now) of
                  (buf, i) \<Rightarrow> (j\<lparr>j_buf := buf\<rparr>, i))))"

text \<open>
  \<open>jbufpool.Get().(*Json)\<close>: a buffer of the pool, or \<open>new(Json)\<close> when the pool is empty.
\<close>

definition jbufpool_Get :: "glog \<Rightarrow> Json \<times> glog" where
  "jbufpool_Get g =
     (case jbufpool g of
        [] \<Rightarrow> (new_Json, g)
      | j # js \<Rightarrow> (j, g\<lparr>jbufpool := js\<rparr>))"

text \<open>
  \<open>func jheader(s severity, level Level, file string, line int) *Json\<close>.  It fills
  \<open>buf[0..64]\<close>, sets \<open>p\<close> to that prefix and appends the other header fields.  It does not
  assign the fields \<open>s\<close>, \<open>file\<close> and \<open>line\<close> of the buffer.
\<close>

definition jheader :: "runtime \<Rightarrow> severity \<Rightarrow> int \<Rightarrow> string \<Rightarrow> int \<Rightarrow> glog \<Rightarrow> Json \<times> glog" where
  "jheader rt s level file line g =
     (let now = rt_timeNow rt;
          (j, g) = jbufpool_Get g;
          year = t_year now;
          offset = t_offset now;
          j = buf_set 0 (CHR ''{'') j;
          j = buf_set 1 dquote j;
          j = buf_set 2 (CHR ''t'') j;
          j = buf_set 3 (CHR ''i'') j;
          j = buf_set 4 (CHR ''m'') j;
          j = buf_set 5 (CHR ''e'') j;
          j = buf_set 6 dquote j;
          j = buf_set 7 (CHR '':'') j;
          j = buf_set 8 dquote j;
          j = buf_set 12 (digits ! (year mod 10)) j;
          j = buf_set 11 (digits ! (year div 10 mod 10)) j;
          j = buf_set 10 (digits ! (year div 10 div 10 mod 10)) j;
          j = buf_set 9 (digits ! (year div 10 div 10 div 10 mod 10)) j;
          j = buf_set 13 (CHR ''-'') j;
          j = twoDigits 14 (t_month now) j;
          j = buf_set 16 (CHR ''-'') j;
          j = twoDigits 17 (t_day now) j;
          j = buf_set 19 (CHR ''T'') j;
          j = twoDigits 20 (t_hour now) j;
          j = buf_set 22 (CHR '':'') j;
          j = twoDigits 23 (t_minute now) j;
          j = buf_set 25 (CHR '':'') j;
          j = twoDigits 26 (t_second now) j;
          j = (if offset > 0 then buf_set 28 (CHR ''+'') j else buf_set 28 (CHR ''-'') j);
          offset = (if offset > 0 then offset div 60 else (- offset) div 60);
          j = twoDigits 29 (nat (offset div 60)) j;
          j = buf_set 31 (CHR '':'') j;
          j = twoDigits 32 (nat (offset mod 60)) j;
          j = buf_set 34 dquote j;
          j = buf_set 35 (CHR '','') j;
          j = buf_set 36 dquote j;
          j = buf_set 37 (CHR ''t'') j;
          j = buf_set 38 (CHR ''i'') j;
          j = buf_set 39 (CHR ''m'') j;
          j = buf_set 40 (CHR ''e'') j;
          j = buf_set 41 (CHR ''s'') j;
          j = buf_set 42 (CHR ''t'') j;
          j = buf_set 43 (CHR ''a'') j;
          j = buf_set 44 (CHR ''m'') j;
          j = buf_set 45 (CHR ''p'') j;
          j = buf_set 46 dquote j;
          j = buf_set 47 (CHR '':'') j;
          j = fst (timestamp 48 now j);
          j = buf_slice 65 j;
          j = j_append j ([CHR '','', dquote] @ ''level'' @ [dquote, CHR '':'', dquote]);
          j = j_append j (lowerSeverityName s);
          j = (if JVersion g \<noteq> [] then
                 j_append (j_append j ([dquote, CHR '','', dquote] @ ''version'' @ [dquote, CHR '':'', dquote]))
                   (JVersion g)
               else j);
          j = j_append j ([dquote, CHR '','', dquote] @ ''host'' @ [dquote, CHR '':'', dquote]);
          j = j_append j (host g);
          j = j_append j ([dquote, CHR '','', dquote] @ ''pid'' @ [dquote, CHR '':'']);
          j = j_AppendInt (pid g) j;
          j = j_append j ([CHR '','', dquote] @ ''file'' @ [dquote, CHR '':'', dquote]);
          j = j_append j file;
          j = j_append j ([dquote, CHR '','', dquote] @ ''line'' @ [dquote, CHR '':'']);
          j = j_AppendInt line j
      in (j, g))"

section \<open>The record constructor\<close>

text \<open>\<open>strings.LastIndex(s, "/")\<close>, for a one-byte separator: \<open>-1\<close> when it does not occur.\<close>

definition LastIndex :: "string \<Rightarrow> char \<Rightarrow> int" where
  "LastIndex s c =
     (case filter (\<lambda>i. s ! i = c) (rev [0..<length s]) of
        [] \<Rightarrow> - 1
      | i # _ \<Rightarrow> int i)"

text \<open>
  \<open>func json(s severity, level Level) *Json\<close>.  \<open>Level\<close> is a signed integer.  The call
  \<open>runtime.Callers(2, logging.pcs[:])\<close> stores the first program counter it records in
  \<open>pcs[0]\<close> and returns 0 when it records none.
\<close>

definition json :: "runtime \<Rightarrow> severity \<Rightarrow> int \<Rightarrow> glog \<Rightarrow> Json option \<times> glog" where
  "json rt s level g =
     (let (file, line) =
            (case Caller rt 2 of
               None \<Rightarrow> (''???'', 1)
             | Some (file, line) \<Rightarrow>
                 (if LastIndex file (CHR ''/'') \<ge> 0
                  then (drop (nat (LastIndex file (CHR ''/'') + 1)) file, line)
                  else (file, line)));
          line = (if line < 0 then 0 else line)
      in if l_verbosity g \<ge> level then
           (case jheader rt s level file line g of (j, g) \<Rightarrow> (Some j, g))
         else if l_filterLength g > 0 then
           (case Callers rt 2 of
              [] \<Rightarrow> (None, g)
            | pc # _ \<Rightarrow>
                (let g = g\<lparr>l_pcs := [pc]\<rparr>;
                     (v, g) = (case l_vmap g (l_pcs g ! 0) of
                                 Some v \<Rightarrow> (v, g)
                               | None \<Rightarrow> rt_setV rt (l_pcs g ! 0) g)
                 in if v \<ge> level then
                      (case jheader rt s level file line g of (j, g) \<Rightarrow> (Some j, g))
                    else (None, g)))
         else (None, g))"

text \<open>
  The file and the line \<open>json\<close> passes to \<open>jheader\<close>: those of the frame
  \<open>runtime.Caller(2)\<close> reports, the file without its directories and the line not below 0,
  or \<open>???\<close> and 1.
\<close>

definition site_file :: "runtime \<Rightarrow> string" where
  "site_file rt =
     (case Caller rt 2 of
        None \<Rightarrow> ''???''
      | Some (file, line) \<Rightarrow>
          (if LastIndex file (CHR ''/'') \<ge> 0
           then drop (nat (LastIndex file (CHR ''/'') + 1)) file else file))"

definition site_line :: "runtime \<Rightarrow> int" where
  "site_line rt =
     (case Caller rt 2 of
        None \<Rightarrow> 1
      | Some (file, line) \<Rightarrow> (if line < 0 then 0 else line))"

text \<open>\<open>J\<close>, \<open>JInfo\<close>, \<open>JWarning\<close>, \<open>JError\<close>, \<open>JFatal\<close>\<close>

definition J :: "runtime \<Rightarrow> int \<Rightarrow> glog \<Rightarrow> Json option \<times> glog" where
  "J rt level g = json rt infoLog level g"

definition JInfo :: "runtime \<Rightarrow> glog \<Rightarrow> Json option \<times> glog" where
  "JInfo rt g = json rt infoLog 0 g"

definition JWarning :: "runtime \<Rightarrow> glog \<Rightarrow> Json option \<times> glog" where
  "JWarning rt g = json rt warningLog 0 g"

definition JError :: "runtime \<Rightarrow> glog \<Rightarrow> Json option \<times> glog" where
  "JError rt g = json rt errorLog 0 g"

definition JFatal :: "runtime \<Rightarrow> glog \<Rightarrow> Json option \<times> glog" where
  "JFatal rt g = json rt fatalLog 0 g"

section \<open>The sink\<close>

text \<open>
  How a call of the sink ends: it returns, the process exits through \<open>os.Exit\<close> with a
  status, the process is ended by the package's exit path \<open>l.exit(err)\<close>, or the call
  panics (a \<open>Write\<close> on a nil file).  Each outcome carries the state reached.
\<close>

datatype outcome =
    Returned glog
  | Exited nat glog
  | LogExit string glog
  | Panic glog

fun final :: "outcome \<Rightarrow> glog" where
  "final (Returned g) = g"
| "final (Exited n g) = g"
| "final (LogExit err g) = g"
| "final (Panic g) = g"

fun is_Returned :: "outcome \<Rightarrow> bool" where
  "is_Returned (Returned g) = True"
| "is_Returned (Exited n g) = False"
| "is_Returned (LogExit err g) = False"
| "is_Returned (Panic g) = False"

text \<open>Sequencing: the next statement runs only when the one before it returned.\<close>

fun and_then :: "outcome \<Rightarrow> (glog \<Rightarrow> outcome) \<Rightarrow> outcome" where
  "and_then (Returned g) f = f g"
| "and_then (Exited n g) f = Exited n g"
| "and_then (LogExit err g) f = LogExit err g"
| "and_then (Panic g) f = Panic g"

text \<open>\<open>os.Stderr.Write(data)\<close>\<close>

definition Stderr_Write :: "string \<Rightarrow> glog \<Rightarrow> glog" where
  "Stderr_Write data g = g\<lparr>Stderr := Stderr g @ [data]\<rparr>"

text \<open>
  \<open>l.file[t].Write(data)\<close>: the write is appended to the open file of tier \<open>t\<close>; on a nil
  entry the method call panics.  Write errors of an open file are not modelled.
\<close>

definition file_Write :: "severity \<Rightarrow> string \<Rightarrow> glog \<Rightarrow> outcome" where
  "file_Write t data g =
     (case l_file g t of
        None \<Rightarrow> Panic g
      | Some ws \<Rightarrow> Returned (g\<lparr>l_file := (l_file g)(t := Some (ws @ [data]))\<rparr>))"

text \<open>
  Modelled from the spec: \<open>l.exit(err)\<close> is not under \<open>src/\<close>.  The spec says of a file
  creation failure that "the condition is treated as fatal to the whole process": the
  exit path ends the process.
\<close>

definition l_exit :: "string \<Rightarrow> glog \<Rightarrow> outcome" where
  "l_exit err g = LogExit err g"

text \<open>
  Modelled from the spec: \<open>timeoutFlush(d)\<close> is not under \<open>src/\<close>; the spec has "flush
  everything with a bounded timeout".  The model records the call and its timeout in
  seconds.
\<close>

definition timeoutFlush :: "nat \<Rightarrow> glog \<Rightarrow> glog" where
  "timeoutFlush seconds g = g\<lparr>timeoutFlushed := timeoutFlushed g @ [seconds]\<rparr>"

text \<open>
  The first statements of \<open>outputj\<close>: when the trace location is set and matches the
  call site, the stack of the current goroutine is appended to the record.
\<close>

definition outputj_trace :: "runtime \<Rightarrow> Json \<Rightarrow> string \<Rightarrow> int \<Rightarrow> glog \<Rightarrow> Json" where
  "outputj_trace rt buf file line g =
     (if l_traceLocation g \<noteq> None then
        (if l_traceLocation g = Some (file, line) then j_append buf (rt_stacks rt False) else buf)
      else buf)"

text \<open>
  \<open>if alsoToStderr || l.alsoToStderr || s >= l.stderrThreshold.get() { os.Stderr.Write(data) }\<close>
\<close>

definition stderr_mirror :: "severity \<Rightarrow> string \<Rightarrow> bool \<Rightarrow> glog \<Rightarrow> glog" where
  "stderr_mirror s data alsoToStderr g =
     (if alsoToStderr \<or> l_alsoToStderr g \<or> sev s \<ge> sev (l_stderrThreshold g)
      then Stderr_Write data g else g)"

text \<open>
  \<open>if l.file[s] == nil { if err := l.createFiles(s); err != nil { os.Stderr.Write(data); l.exit(err) } }\<close>
\<close>

definition ensure_file :: "runtime \<Rightarrow> severity \<Rightarrow> string \<Rightarrow> glog \<Rightarrow> outcome" where
  "ensure_file rt s data g =
     (if l_file g s = None then
        (case rt_createFiles rt s g of
           Inl err \<Rightarrow> l_exit err (Stderr_Write data g)
         | Inr g \<Rightarrow> Returned g)
      else Returned g)"

text \<open>The \<open>switch s\<close> of \<open>outputj\<close>; each case falls through to the next lower tier.\<close>

definition switch_s :: "severity \<Rightarrow> string \<Rightarrow> glog \<Rightarrow> outcome" where
  "switch_s s data g =
     (case s of
        fatalLog \<Rightarrow>
          and_then (file_Write fatalLog data g) (\<lambda>g.
          and_then (file_Write errorLog data g) (\<lambda>g.
          and_then (file_Write warningLog data g) (\<lambda>g.
          file_Write infoLog data g)))
      | errorLog \<Rightarrow>
          and_then (file_Write errorLog data g) (\<lambda>g.
          and_then (file_Write warningLog data g) (\<lambda>g.
          file_Write infoLog data g))
      | warningLog \<Rightarrow>
          and_then (file_Write warningLog data g) (\<lambda>g.
          file_Write infoLog data g)
      | infoLog \<Rightarrow>
          file_Write infoLog data g)"

text \<open>The \<open>if !flag.Parsed() ... else if l.toStderr ... else ...\<close> of \<open>outputj\<close>.\<close>

definition outputj_write :: "runtime \<Rightarrow> severity \<Rightarrow> string \<Rightarrow> bool \<Rightarrow> glog \<Rightarrow> outcome" where
  "outputj_write rt s data alsoToStderr g =
     (if \<not> flag_Parsed g then
        Returned (Stderr_Write data (Stderr_Write ''ERROR: logging before flag.Parse: '' g))
      else if l_toStderr g then
        Returned (Stderr_Write data g)
      else
        and_then (ensure_file rt s data (stderr_mirror s data alsoToStderr g))
          (switch_s s data))"

text \<open>
  The loop \<open>for log := fatalLog; log >= infoLog; log--\<close> of the fatal path: the trace is
  written to every file that is open.
\<close>

definition write_trace :: "string \<Rightarrow> severity \<Rightarrow> glog \<Rightarrow> glog" where
  "write_trace trace log g =
     (case l_file g log of
        None \<Rightarrow> g
      | Some ws \<Rightarrow> g\<lparr>l_file := (l_file g)(log := Some (ws @ [trace]))\<rparr>)"

text \<open>
  The \<open>if s == fatalLog\<close> block of \<open>outputj\<close>.  The assignment to \<open>logExitFunc\<close> is left
  out: the variable is read only by code that is not under \<open>src/\<close>, on write errors.
\<close>

definition outputj_fatal :: "runtime \<Rightarrow> glog \<Rightarrow> outcome" where
  "outputj_fatal rt g =
     (if fatalNoStacks g > 0 then
        Exited 1 (timeoutFlush 10 g)
      else
        (let g = (if \<not> l_toStderr g then Stderr_Write (rt_stacks rt False) g else g);
             trace = rt_stacks rt True;
             g = fold (write_trace trace) [fatalLog, errorLog, warningLog, infoLog] g
         in Exited 255 (timeoutFlush 10 g)))"

text \<open>The end of \<open>outputj\<close>: the buffer goes back to the pool and the counters are updated.\<close>

definition outputj_done :: "severity \<Rightarrow> Json \<Rightarrow> string \<Rightarrow> glog \<Rightarrow> glog" where
  "outputj_done s buf data g =
     (let g = g\<lparr>jbufpool := buf # jbufpool g\<rparr>
      in case severityStats g s of
           None \<Rightarrow> g
         | Some (lines, bytes) \<Rightarrow>
             g\<lparr>severityStats := (severityStats g)(s := Some (lines + 1, bytes + int (length data)))\<rparr>)"

text \<open>
  \<open>func (l *loggingT) outputj(s severity, buf *Json, file string, line int, alsoToStderr bool)\<close>
\<close>

definition outputj :: "runtime \<Rightarrow> severity \<Rightarrow> Json \<Rightarrow> string \<Rightarrow> int \<Rightarrow> bool \<Rightarrow> glog \<Rightarrow> outcome" where
  "outputj rt s buf file line alsoToStderr g =
     (let buf = outputj_trace rt buf file line g;
          data = j_p buf
      in and_then (outputj_write rt s data alsoToStderr g)
           (\<lambda>g. if s = fatalLog then outputj_fatal rt g
                else Returned (outputj_done s buf data g)))"

section \<open>Finishing a record\<close>

text \<open>
  \<open>func (j *Json) Msg(s string)\<close>.  \<open>Msg_record\<close> is the buffer it completes before it hands
  it to the sink.
\<close>

definition Msg_record :: "string \<Rightarrow> Json \<Rightarrow> Json" where
  "Msg_record s j =
     (let j = (if s \<noteq> [] then
                 j_string s False
                   (j_append j ([CHR '','', dquote] @ ''message'' @ [dquote, CHR '':'']))
               else j)
      in j_append j [CHR ''}'', CHR 0x0A])"

fun Msg :: "runtime \<Rightarrow> string \<Rightarrow> Json option \<Rightarrow> glog \<Rightarrow> outcome" where
  "Msg rt s None g = Returned g"
| "Msg rt s (Some j) g =
     (let j = Msg_record s j
      in outputj rt (j_s j) j (j_file j) (j_line j) False g)"

text \<open>
  \<open>func (j *Json) Msgf(format string, v ...interface{})\<close>.  \<open>Sprintf\<close> stands for
  \<open>fmt.Sprintf\<close> and is a parameter, as is the type \<open>'v\<close> of the arguments.
\<close>

definition Msgf :: "(string \<Rightarrow> 'v list \<Rightarrow> string) \<Rightarrow> runtime \<Rightarrow> string \<Rightarrow> 'v list \<Rightarrow> Json option \<Rightarrow> glog \<Rightarrow> outcome" where
  "Msgf Sprintf rt format v j g =
     (if j = None then Msg rt (Sprintf format v) j g else Returned g)"

text \<open>The status \<open>os.Exit\<close> was called with, when the call ended that way.\<close>

fun exit_status :: "outcome \<Rightarrow> nat option" where
  "exit_status (Returned g) = None"
| "exit_status (Exited n g) = Some n"
| "exit_status (LogExit err g) = None"
| "exit_status (Panic g) = None"

section \<open>A concrete run\<close>

text \<open>
  A clock value, a state and a runtime to run the model on: 9 March 2024, 14:05:07 at
  UTC+1; a process in file-logging mode whose INFO, WARNING and ERROR files are open and
  empty and whose FATAL file is not open yet; the statement \<open>glog.JInfo()\<close> at
  \<open>/src/app/main.go:12\<close>, and a file system on which creating a log file fails.
\<close>

definition t0 :: time where
  "t0 = \<lparr> t_year = 2024, t_month = 3, t_day = 9, t_hour = 14, t_minute = 5, t_second = 7,
          t_offset = 3600, t_nanosecond = 123456789, t_unix = 1709989507 \<rparr>"

definition g0 :: glog where
  "g0 = \<lparr> JVersion = [], JFieldPrefix = [], JEscapeHTML = True, host = ''h'', pid = 42,
          jbufpool = [], fatalNoStacks = 0, severityStats = (\<lambda>s. Some (0, 0)), Stderr = [],
          flag_Parsed = True, timeoutFlushed = [],
          l_toStderr = False, l_alsoToStderr = False, l_stderrThreshold = errorLog,
          l_traceLocation = None,
          l_file = (\<lambda>t. if t = fatalLog then None else Some []),
          l_verbosity = 0, l_filterLength = 0, l_vmap = (\<lambda>pc. None), l_pcs = [] \<rparr>"

definition rt0 :: runtime where
  "rt0 = \<lparr> rt_stack =
             [\<lparr> f_pc = 1000, f_file = ''/go/src/glog/glog_json.go'', f_line = 224 \<rparr>,
              \<lparr> f_pc = 2000, f_file = ''/go/src/glog/glog_json.go'', f_line = 51 \<rparr>,
              \<lparr> f_pc = 3000, f_file = ''/src/app/main.go'', f_line = 12 \<rparr>],
           rt_timeNow = t0,
           rt_stacks = (\<lambda>all. if all then ''goroutines'' else ''goroutine''),
           rt_createFiles = (\<lambda>s g. Inl ''disk full''),
           rt_setV = (\<lambda>pc g. (0, g)) \<rparr>"


text \<open>
  A run with a vmodule rule (the spec's scenario A: default verbosity 0, rule \<open>foo*=2\<close>):
  the statement \<open>glog.J(2)\<close> at \<open>/src/app/foobar.go:12\<close>.  \<open>setV\<close> resolves the program
  counter 3000, which lies in \<open>foobar.go\<close>, to 2 and every other one to the default 0, and
  caches what it resolved.
\<close>

definition g_vmodule :: glog where
  "g_vmodule = g0\<lparr>l_filterLength := 1\<rparr>"

definition rt_vmodule :: runtime where
  "rt_vmodule = rt0\<lparr>
      rt_stack :=
        [\<lparr> f_pc = 1000, f_file = ''/go/src/glog/glog_json.go'', f_line = 224 \<rparr>,
         \<lparr> f_pc = 2000, f_file = ''/go/src/glog/glog_json.go'', f_line = 47 \<rparr>,
         \<lparr> f_pc = 3000, f_file = ''/src/app/foobar.go'', f_line = 12 \<rparr>],
      rt_setV := (\<lambda>pc g. (if pc = 3000 then 2 else 0,
                           g\<lparr>l_vmap := (l_vmap g)(pc := Some (if pc = 3000 then 2 else 0))\<rparr>)) \<rparr>"

text \<open>The same process in stderr-only mode (\<open>-logtostderr\<close>), where no file is open.\<close>

definition g0_stderr :: glog where
  "g0_stderr = g0\<lparr>l_toStderr := True, l_file := (\<lambda>t. None)\<rparr>"

text \<open>The header \<open>jheader\<close> builds for the call site at severity INFO.\<close>

definition j0 :: Json where
  "j0 = fst (jheader rt0 infoLog 0 ''main.go'' 12 g0)"

definition j0_bytes :: string where
  \<open>j0_bytes = ''{"time":"2024-03-09T14:05:07+01:00","timestamp":1709989507.123456,"level":"info","host":"h","pid":42,"file":"main.go","line":12''\<close>

section \<open>Properties of the model\<close>

subsection \<open>The concrete run\<close>

lemma j_append_proj [simp]:
  "j_p (j_append j x) = j_p j @ x" "j_buf (j_append j x) = j_buf j"
  "j_s (j_append j x) = j_s j" "j_file (j_append j x) = j_file j" "j_line (j_append j x) = j_line j"
  by (simp_all add: j_append_def)

lemma j_AppendInt_proj [simp]:
  "j_p (j_AppendInt i j) = AppendInt (j_p j) i" "j_buf (j_AppendInt i j) = j_buf j"
  "j_s (j_AppendInt i j) = j_s j" "j_file (j_AppendInt i j) = j_file j"
  "j_line (j_AppendInt i j) = j_line j"
  by (simp_all add: j_AppendInt_def)

lemma buf_set_proj [simp]:
  "j_p (buf_set i c j) = j_p j" "j_buf (buf_set i c j) = (j_buf j)[i := c]"
  "j_s (buf_set i c j) = j_s j" "j_file (buf_set i c j) = j_file j" "j_line (buf_set i c j) = j_line j"
  by (simp_all add: buf_set_def)

lemma buf_slice_proj [simp]:
  "j_p (buf_slice n j) = take n (j_buf j)" "j_buf (buf_slice n j) = j_buf j"
  "j_s (buf_slice n j) = j_s j" "j_file (buf_slice n j) = j_file j" "j_line (buf_slice n j) = j_line j"
  by (simp_all add: buf_slice_def)

lemma twoDigits_proj [simp]:
  "j_p (twoDigits i d j) = j_p j"
  "j_buf (twoDigits i d j) = (j_buf j)[i + 1 := digits ! (d mod 10), i := digits ! (d div 10 mod 10)]"
  "j_s (twoDigits i d j) = j_s j" "j_file (twoDigits i d j) = j_file j" "j_line (twoDigits i d j) = j_line j"
  by (simp_all add: twoDigits_def)

lemma timestamp_proj [simp]:
  "j_p (fst (timestamp i now j)) = j_p j"
  "j_s (fst (timestamp i now j)) = j_s j" "j_file (fst (timestamp i now j)) = j_file j"
  "j_line (fst (timestamp i now j)) = j_line j"
  by (simp_all add: timestamp_def split_def)

text \<open>
  \<open>jheader\<close> leaves the fields \<open>s\<close>, \<open>file\<close> and \<open>line\<close> of the pooled buffer as they
  were, and takes nothing but the buffer from the state.
\<close>

lemma jheader_keeps_s:
  "j_s (fst (jheader rt s level file line g)) = j_s (fst (jbufpool_Get g))"
  by (simp add: jheader_def Let_def split_def if_distrib [of j_s] cong: let_weak_cong)

lemma jheader_state:
  "snd (jheader rt s level file line g) = snd (jbufpool_Get g)"
  by (simp add: jheader_def Let_def split_def cong: let_weak_cong)

lemma list_update_Cons_numeral:
  "(x # xs)[numeral k := y] = x # xs[pred_numeral k := y]"
  by (simp add: numeral_eq_Suc)

lemma replicate_numeral_Cons:
  "replicate (numeral k) x = x # replicate (pred_numeral k) x"
  by (simp add: numeral_eq_Suc)

text \<open>The header of the concrete run, byte for byte.\<close>

lemma j0_p: "j_p j0 = j0_bytes"
  unfolding j0_def j0_bytes_def
  apply (simp add: jheader_def Let_def jbufpool_Get_def g0_def rt0_def new_Json_def
      digits_def AppendInt_def timestamp_def t0_def
      timestamp_micros.simps timestamp_zeros.simps timestamp_secs.simps take_update_swap
      dquote_def decimal.simps cong: let_weak_cong)
  apply (simp add: list_update_Cons_numeral replicate_numeral_Cons)
  done

lemma j0_s: "j_s j0 = infoLog"
  by (simp add: j0_def jheader_keeps_s jbufpool_Get_def g0_def new_Json_def)

lemma LastIndex_main: "LastIndex ''/src/app/main.go'' (CHR ''/'') = 8"
  by (simp add: LastIndex_def upt_rec_numeral)

lemma JInfo_g0: "JInfo rt0 g0 = (Some j0, g0)"
proof -
  have "snd (jheader rt0 infoLog 0 ''main.go'' 12 g0) = g0"
    by (simp add: jheader_state jbufpool_Get_def g0_def)
  then have "jheader rt0 infoLog 0 ''main.go'' 12 g0 = (j0, g0)"
    by (simp add: j0_def prod_eq_iff)
  moreover have "Caller rt0 2 = Some (''/src/app/main.go'', 12)" and "l_verbosity g0 = 0"
    by (simp_all add: Caller_def rt0_def g0_def)
  ultimately show ?thesis
    by (simp add: JInfo_def json_def LastIndex_main)
qed

subsection \<open>The sink\<close>

lemma sev_le_iff:
  "sev t \<le> sev infoLog \<longleftrightarrow> t = infoLog"
  "sev t \<le> sev warningLog \<longleftrightarrow> t = infoLog \<or> t = warningLog"
  "sev t \<le> sev errorLog \<longleftrightarrow> t \<noteq> fatalLog"
  "sev t \<le> sev fatalLog"
  by (cases t; simp)+

lemma l_file_update_cong:
  "(\<And>t. f t = h t) \<Longrightarrow> g\<lparr>l_file := f\<rparr> = g\<lparr>l_file := h\<rparr>"
  by (simp add: fun_eq_iff)

text \<open>
  When every file at or below the tier of the record is open, the \<open>switch\<close> returns, and
  it has appended the record to exactly those files.
\<close>

lemma switch_s_open:
  assumes "\<forall>t. sev t \<le> sev s \<longrightarrow> l_file g t \<noteq> None"
  shows "switch_s s data g =
    Returned (g\<lparr>l_file := (\<lambda>t. if sev t \<le> sev s
        then map_option (\<lambda>ws. ws @ [data]) (l_file g t) else l_file g t)\<rparr>)"
proof -
  have opn: "\<exists>ws. l_file g t = Some ws" if "sev t \<le> sev s" for t
    using assms that by auto
  show ?thesis
  proof (cases s)
    case infoLog
    from opn [of infoLog] infoLog obtain a where "l_file g infoLog = Some a"
      by auto
    with infoLog show ?thesis
      by (simp add: sev_le_iff switch_s_def file_Write_def, intro l_file_update_cong,
          case_tac t, simp_all)
  next
    case warningLog
    from opn [of infoLog] opn [of warningLog] warningLog
    obtain a b where "l_file g infoLog = Some a" "l_file g warningLog = Some b"
      by auto
    with warningLog show ?thesis
      by (simp add: sev_le_iff switch_s_def file_Write_def, intro l_file_update_cong,
          case_tac t, simp_all)
  next
    case errorLog
    from opn [of infoLog] opn [of warningLog] opn [of errorLog] errorLog
    obtain a b c where "l_file g infoLog = Some a" "l_file g warningLog = Some b"
      "l_file g errorLog = Some c"
      by auto
    with errorLog show ?thesis
      by (simp add: sev_le_iff switch_s_def file_Write_def, intro l_file_update_cong,
          case_tac t, simp_all)
  next
    case fatalLog
    from opn [of infoLog] opn [of warningLog] opn [of errorLog] opn [of fatalLog] fatalLog
    obtain a b c d where "l_file g infoLog = Some a" "l_file g warningLog = Some b"
      "l_file g errorLog = Some c" "l_file g fatalLog = Some d"
      by auto
    with fatalLog show ?thesis
      by (simp add: sev_le_iff switch_s_def file_Write_def, intro l_file_update_cong,
          case_tac t, simp_all)
  qed
qed

lemma Stderr_Write_proj [simp]:
  "Stderr (Stderr_Write d g) = Stderr g @ [d]"
  "l_file (Stderr_Write d g) = l_file g"
  "l_toStderr (Stderr_Write d g) = l_toStderr g"
  "fatalNoStacks (Stderr_Write d g) = fatalNoStacks g"
  "timeoutFlushed (Stderr_Write d g) = timeoutFlushed g"
  by (simp_all add: Stderr_Write_def)

lemma stderr_mirror_proj [simp]:
  "l_file (stderr_mirror s data a g) = l_file g"
  "fatalNoStacks (stderr_mirror s data a g) = fatalNoStacks g"
  "l_toStderr (stderr_mirror s data a g) = l_toStderr g"
  "flag_Parsed (stderr_mirror s data a g) = flag_Parsed g"
  by (simp_all add: stderr_mirror_def Stderr_Write_def)

lemma fold_write_trace_file:
  "l_file (fold (write_trace trace) [fatalLog, errorLog, warningLog, infoLog] g) t =
     map_option (\<lambda>ws. ws @ [trace]) (l_file g t)"
  by (cases t) (simp_all add: write_trace_def split: option.splits)

lemma fold_write_trace_other:
  "Stderr (fold (write_trace trace) ts g) = Stderr g"
  "timeoutFlushed (fold (write_trace trace) ts g) = timeoutFlushed g"
  by (induction ts arbitrary: g; simp add: write_trace_def split: option.splits)+

text \<open>What the fatal path leaves in the files, on standard error and in the flush log.\<close>

lemma outputj_fatal_file:
  "l_file (final (outputj_fatal rt g)) t =
     (if fatalNoStacks g = 0 then map_option (\<lambda>ws. ws @ [rt_stacks rt True]) (l_file g t)
      else l_file g t)"
proof -
  have "l_file (fold (write_trace trace) [fatalLog, errorLog, warningLog, infoLog]
          (Stderr_Write x g)) t = map_option (\<lambda>ws. ws @ [trace]) (l_file g t)" for trace x
    by (simp only: fold_write_trace_file) simp
  then show ?thesis
    by (simp add: outputj_fatal_def Let_def timeoutFlush_def fold_write_trace_file
        del: fold_simps fold.simps)
qed

lemma outputj_fatal_Stderr:
  "Stderr (final (outputj_fatal rt g)) =
     Stderr g @ (if fatalNoStacks g = 0 \<and> \<not> l_toStderr g then [rt_stacks rt False] else [])"
  by (simp add: outputj_fatal_def Let_def timeoutFlush_def fold_write_trace_other
      del: fold_simps fold.simps)


lemma outputj_fatal_status:
  "exit_status (outputj_fatal rt g) = Some (if fatalNoStacks g > 0 then 1 else 255)"
  by (simp add: outputj_fatal_def Let_def)

lemma outputj_fatal_not_Returned [simp]: "\<not> is_Returned (outputj_fatal rt g)"
  by (simp add: outputj_fatal_def Let_def)

lemma outputj_trace_unset [simp]:
  "l_traceLocation g = None \<Longrightarrow> outputj_trace rt buf file line g = buf"
  by (simp add: outputj_trace_def)

text \<open>\<open>Msg\<close> on the handle of the concrete run writes its record to the INFO file.\<close>

lemma Msg_g0:
  "l_file (final (Msg rt0 m (Some j0) g0)) infoLog = Some [j_p (Msg_record m j0)]"
proof -
  have h: "flag_Parsed g0" "\<not> l_toStderr g0"
    "\<forall>t. sev t \<le> sev infoLog \<longrightarrow> l_file g0 t \<noteq> None"
    by (simp_all only: sev_le_iff) (auto simp add: g0_def)
  have s: "j_s (Msg_record m j0) = infoLog"
    by (simp add: Msg_record_def j_string_def j0_s)
  have tr: "outputj_trace rt0 b f n g0 = b" for b f n
    by (simp add: g0_def)
  show ?thesis
    using switch_s_open [OF h(3), of "j_p (Msg_record m j0)"] h(1,2)
    by (simp add: Let_def s outputj_def tr outputj_write_def stderr_mirror_def ensure_file_def
        outputj_done_def g0_def)
qed

subsection \<open>Claim C1: the fan-out by severity\<close>

text \<open>
  Claim C1.  A record at severity \<open>s\<close> is handed to \<open>outputj\<close> in file-logging mode (the
  flags are parsed and the stderr-only mode is off), and the files of all tiers up to
  \<open>s\<close> are open.  Then the bytes of the record (\<open>buf.p\<close>, with the stack trace when the
  trace location matches) are appended to the file of tier \<open>s\<close> and to the file of every
  tier below it, and the file of no tier above \<open>s\<close> changes.  A FATAL record is followed,
  in every file, by the dump of all stacks, unless \<open>fatalNoStacks\<close> is set.  The call
  returns for every severity but FATAL.
\<close>

theorem fanout_monotonic:
  assumes "flag_Parsed g" and "\<not> l_toStderr g"
    and "\<forall>t. sev t \<le> sev s \<longrightarrow> l_file g t \<noteq> None"
  shows "l_file (final (outputj rt s buf file line alsoToStderr g)) t =
           (if sev t \<le> sev s then
              map_option (\<lambda>ws. ws @ [j_p (outputj_trace rt buf file line g)]
                  @ (if s = fatalLog \<and> fatalNoStacks g = 0 then [rt_stacks rt True] else []))
                (l_file g t)
            else l_file g t)
         \<and> is_Returned (outputj rt s buf file line alsoToStderr g) = (s \<noteq> fatalLog)"
proof -
  define data where "data = j_p (outputj_trace rt buf file line g)"
  define g1 where "g1 = stderr_mirror s data alsoToStderr g"
  define g2 where "g2 = g1\<lparr>l_file := (\<lambda>t. if sev t \<le> sev s
      then map_option (\<lambda>ws. ws @ [data]) (l_file g1 t) else l_file g1 t)\<rparr>"
  have opn: "\<forall>t. sev t \<le> sev s \<longrightarrow> l_file g1 t \<noteq> None"
    using assms(3) by (simp add: g1_def)
  have "l_file g1 s \<noteq> None"
    using opn by simp
  then have ens: "ensure_file rt s data g1 = Returned g1"
    by (auto simp add: ensure_file_def)
  have wr: "outputj_write rt s data alsoToStderr g = Returned g2"
    using assms(1,2) ens switch_s_open [OF opn, of data]
    by (simp add: outputj_write_def g1_def g2_def)
  have out: "outputj rt s buf file line alsoToStderr g =
      (if s = fatalLog then outputj_fatal rt g2
       else Returned (outputj_done s (outputj_trace rt buf file line g) data g2))"
    using wr by (simp add: outputj_def Let_def data_def)
  have g2_file: "l_file g2 t = (if sev t \<le> sev s
      then map_option (\<lambda>ws. ws @ [data]) (l_file g t) else l_file g t)"
    by (simp add: g2_def g1_def)
  have g2_fns: "fatalNoStacks g2 = fatalNoStacks g"
    by (simp add: g2_def g1_def)
  show ?thesis
  proof (cases "s = fatalLog")
    case True
    then show ?thesis
      using out g2_file g2_fns sev_le_iff(4) [of t]
      by (simp add: outputj_fatal_file data_def option.map_comp comp_def)
  next
    case False
    then show ?thesis
      using out g2_file
      by (simp add: outputj_done_def Let_def data_def split: option.splits)
  qed
qed

text \<open>
  In the concrete run, a WARNING record reaches the INFO and WARNING files and leaves the
  ERROR file empty.
\<close>

theorem fanout_monotonic_witness:
  "l_file (final (outputj rt0 warningLog j0 ''main.go'' 12 False g0)) infoLog = Some [j_p j0]
   \<and> l_file (final (outputj rt0 warningLog j0 ''main.go'' 12 False g0)) warningLog = Some [j_p j0]
   \<and> l_file (final (outputj rt0 warningLog j0 ''main.go'' 12 False g0)) errorLog = Some []
   \<and> is_Returned (outputj rt0 warningLog j0 ''main.go'' 12 False g0)"
proof -
  have h: "flag_Parsed g0" "\<not> l_toStderr g0"
    "\<forall>t. sev t \<le> sev warningLog \<longrightarrow> l_file g0 t \<noteq> None"
    by (simp_all only: sev_le_iff) (auto simp add: g0_def)
  have tr: "outputj_trace rt0 j0 ''main.go'' 12 g0 = j0"
    by (simp add: g0_def)
  show ?thesis
    using fanout_monotonic [OF h, of rt0 j0 "''main.go''" 12 False infoLog]
      fanout_monotonic [OF h, of rt0 j0 "''main.go''" 12 False warningLog]
      fanout_monotonic [OF h, of rt0 j0 "''main.go''" 12 False errorLog]
    by (simp add: tr) (simp add: g0_def)
qed

subsection \<open>Claim C2: when the constructor returns a handle\<close>

text \<open>
  What \<open>json\<close> returns.  The file and line of the header are those of the frame
  \<open>runtime.Caller(2)\<close> reports, the third of the stack: the call site.  The program counter
  whose threshold decides is the first that \<open>runtime.Callers(2, ...)\<close> records, that of the
  second frame of the stack: the wrapper that called \<open>json\<close>.
\<close>

lemma Callers_2:
  "Callers rt 2 = (case rt_stack rt of [] \<Rightarrow> [] | a # fs \<Rightarrow> map f_pc fs)"
  by (simp add: Callers_def drop_Suc split: list.splits)

lemma json_verbose:
  assumes "level \<le> l_verbosity g"
  shows "json rt s level g =
           (Some (fst (jheader rt s level (site_file rt) (site_line rt) g)),
            snd (jheader rt s level (site_file rt) (site_line rt) g))"
  using assms
  by (auto simp add: json_def site_file_def site_line_def Let_def split_def
      split: option.splits)

lemma json_vmodule:
  assumes "\<not> level \<le> l_verbosity g" and "0 < l_filterLength g"
    and "rt_stack rt = a # w # fs"
  shows "json rt s level g =
           (let g1 = g\<lparr>l_pcs := [f_pc w]\<rparr>;
                v = (case l_vmap g (f_pc w) of
                       Some v \<Rightarrow> v
                     | None \<Rightarrow> fst (rt_setV rt (f_pc w) g1));
                g2 = (case l_vmap g (f_pc w) of
                        Some v \<Rightarrow> g1
                      | None \<Rightarrow> snd (rt_setV rt (f_pc w) g1))
            in if level \<le> v
               then (Some (fst (jheader rt s level (site_file rt) (site_line rt) g2)),
                     snd (jheader rt s level (site_file rt) (site_line rt) g2))
               else (None, g2))"
  using assms
  by (auto simp add: json_def Callers_2 site_file_def site_line_def Let_def split_def
      split: option.splits)

lemma json_vmodule_verdict:
  assumes "\<not> level \<le> l_verbosity g" and "0 < l_filterLength g"
    and "rt_stack rt = a # w # fs"
  shows "(fst (json rt s level g) = None) =
           (\<not> level \<le> (case l_vmap g (f_pc w) of
                          Some v \<Rightarrow> v
                        | None \<Rightarrow> fst (rt_setV rt (f_pc w) (g\<lparr>l_pcs := [f_pc w]\<rparr>))))"
  by (simp add: json_vmodule [OF assms] Let_def)

lemma json_off:
  assumes "\<not> level \<le> l_verbosity g"
    and "\<not> 0 < l_filterLength g \<or> length (rt_stack rt) < 2"
  shows "json rt s level g = (None, g)"
proof -
  have "Callers rt 2 = []" if "length (rt_stack rt) < 2"
    using that by (cases "rt_stack rt") (simp_all add: Callers_2)
  then show ?thesis
    using assms by (auto simp add: json_def Let_def split_def split: option.splits)
qed

text \<open>
  On the vmodule path the call site is not consulted: two stacks that differ only in the
  frames outside the wrapper get the same verdict.
\<close>

lemma json_verdict_ignores_call_site:
  assumes "\<not> level \<le> l_verbosity g"
    and "rt_stack rt = a # w # fs" and "rt' = rt\<lparr>rt_stack := a # w # fs'\<rparr>"
  shows "(fst (json rt' s level g) = None) = (fst (json rt s level g) = None)"
proof (cases "0 < l_filterLength g")
  case True
  have "rt_stack rt' = a # w # fs'" and "rt_setV rt' = rt_setV rt"
    using assms(3) by simp_all
  then show ?thesis
    using json_vmodule_verdict [OF assms(1) True assms(2), of s]
      json_vmodule_verdict [OF assms(1) True, of rt' a w fs' s]
    by (simp cong: option.case_cong)
next
  case False
  then show ?thesis
    using assms(1) by (simp add: json_off)
qed

text \<open>
  Claim C2 says that \<open>json\<close> returns a handle other than nil exactly when the requested
  level is at most the threshold resolved for the call site: a header handle when the
  global verbosity is at least the level, otherwise, when vmodule filters are present,
  when the threshold cached or freshly resolved for the call site is at least the level.

  The verbosity half holds (lemma \<open>json_verbose\<close>), and the handle is the header of the
  call site.  On the vmodule half, \<open>json\<close> calls \<open>runtime.Callers(2, ...)\<close> with the same
  skip as \<open>runtime.Caller(2)\<close>, and the two count frames differently: \<open>Caller(2)\<close> is the
  call site, \<open>Callers(2, ...)\<close> starts at the wrapper \<open>J\<close>.  In the run with the rule
  \<open>foo*=2\<close>, the statement \<open>glog.J(2)\<close> in \<open>foobar.go\<close> has the threshold 2 and is active at
  level 2 by the claim, and \<open>json\<close> returns nil: it resolved the program counter 2000 of
  the wrapper, whose threshold is 0, and cached that.
\<close>

theorem json_resolves_wrapper_not_call_site:
  "Caller rt_vmodule 2 = Some (''/src/app/foobar.go'', 12)
   \<and> Callers rt_vmodule 2 = [2000, 3000]
   \<and> fst (rt_setV rt_vmodule 3000 g_vmodule) = 2
   \<and> fst (json rt_vmodule infoLog 2 g_vmodule) = None
   \<and> l_vmap (snd (json rt_vmodule infoLog 2 g_vmodule)) 2000 = Some 0
   \<and> l_vmap (snd (json rt_vmodule infoLog 2 g_vmodule)) 3000 = None"
  by (simp add: json_def Caller_def Callers_def rt_vmodule_def rt0_def g_vmodule_def g0_def
      Let_def)

subsection \<open>Claim C3: \<open>Msgf\<close>\<close>

text \<open>
  Claim C3 says that \<open>Msgf\<close> on a handle that is not nil formats the message and hands
  the completed record to the sink, as \<open>Msg\<close> does, and that \<open>Msgf\<close> and the field
  builders do nothing on a nil handle.  The test of \<open>Msgf\<close> is \<open>j == nil\<close> where \<open>Msg\<close> has
  \<open>j != nil\<close>: on every handle that is not nil, \<open>Msgf\<close> returns at once and the state is
  as it was, so nothing reaches the sink.
\<close>

theorem Msgf_skips_active_record:
  "Msgf Sprintf rt format v (Some j) g = Returned g"
  by (simp add: Msgf_def)

text \<open>On a nil handle \<open>Msgf\<close>, \<open>Msg\<close> and every builder are no-ops, as the claim says.\<close>

lemma nil_handle_noop:
  "Msgf Sprintf rt format v None g = Returned g"
  "Msg rt s None g = Returned g"
  "Int64 g name i None = None" "Uint64 g name n None = None"
  "Float32 AppendFloat g name f None = None" "Float64 AppendFloat g name f None = None"
  "Bool g name b None = None" "Err g err None = None" "Str g name s None = None"
  "Strs g name ss None = None"
  by (simp_all add: Msgf_def)

text \<open>
  \<open>Msg\<close> on the handle of the concrete run writes the record to the INFO file (lemma
  \<open>Msg_g0\<close>); \<open>Msgf\<close> leaves the file empty.
\<close>

lemma Msgf_leaves_file_empty:
  "l_file (final (Msgf Sprintf rt0 ''m'' [] (Some j0) g0)) infoLog = Some []"
  by (simp add: Msgf_def g0_def)

subsection \<open>Claim C6: a FATAL record\<close>




text \<open>
  The stderr-only mode is outside the amended claim.  There the comment of the fatal path
  says that the loop over the files puts the trace on standard error ("If -logtostderr
  has been specified, the loop below will do that anyway"), and the loop writes to open
  files only: in the stderr-only run standard error holds the record and no trace when
  the process exits.
\<close>

lemma fatal_stderr_only_no_trace:
  "exit_status (outputj rt0 fatalLog j0 ''main.go'' 12 False g0_stderr) = Some 255
   \<and> Stderr (final (outputj rt0 fatalLog j0 ''main.go'' 12 False g0_stderr)) = [j_p j0]"
proof -
  have "outputj rt0 fatalLog j0 ''main.go'' 12 False g0_stderr
      = outputj_fatal rt0 (Stderr_Write (j_p j0) g0_stderr)"
    by (simp add: outputj_def Let_def outputj_write_def g0_stderr_def g0_def)
  then show ?thesis
    by (simp add: outputj_fatal_status outputj_fatal_Stderr)
      (simp add: g0_stderr_def g0_def)
qed

subsection \<open>Claim C7: logging before the flags are parsed\<close>

text \<open>
  Claim C7.  When a record is handed to the sink before \<open>flag.Parse\<close> has run, the
  diagnostic prefix and then the bytes of the record are written to standard error, so
  the record is not dropped.  The call returns unless the record is FATAL: the unparsed
  flags never end the process, only the severity does (then the fatal path adds the
  trace of the current goroutine, when it dumps stacks and the stderr-only mode is off).
\<close>

theorem logging_before_flag_parse:
  assumes "\<not> flag_Parsed g"
  shows "Stderr (final (outputj rt s buf file line alsoToStderr g)) =
           Stderr g @ [''ERROR: logging before flag.Parse: '', j_p (outputj_trace rt buf file line g)]
             @ (if s = fatalLog \<and> fatalNoStacks g = 0 \<and> \<not> l_toStderr g
                then [rt_stacks rt False] else [])
         \<and> is_Returned (outputj rt s buf file line alsoToStderr g) = (s \<noteq> fatalLog)"
  using assms
  by (simp add: outputj_def Let_def outputj_write_def outputj_fatal_Stderr outputj_done_def
      split: option.splits)

theorem logging_before_flag_parse_witness:
  "Stderr (final (outputj rt0 errorLog j0 ''main.go'' 12 False (g0\<lparr>flag_Parsed := False\<rparr>)))
     = [''ERROR: logging before flag.Parse: '', j_p j0]
   \<and> is_Returned (outputj rt0 errorLog j0 ''main.go'' 12 False (g0\<lparr>flag_Parsed := False\<rparr>))"
proof -
  have h: "\<not> flag_Parsed (g0\<lparr>flag_Parsed := False\<rparr>)"
    by simp
  show ?thesis
    using logging_before_flag_parse [OF h, of rt0 errorLog j0 "''main.go''" 12 False]
    by (simp add: g0_def)
qed

subsection \<open>Claim C8: a log file cannot be created\<close>

text \<open>
  Claim C8.  In file-logging mode, when the file of the record's tier is not open and
  \<open>createFiles\<close> fails, the record is written to standard error (after the mirror copy,
  when the record is mirrored there anyway) and the error is handed to the exit path
  \<open>l.exit\<close>, which ends the process: the call does not return, and the record is the last
  write standard error received.
\<close>

theorem file_creation_failure:
  assumes "flag_Parsed g" and "\<not> l_toStderr g" and "l_file g s = None"
    and "rt_createFiles rt s
           (stderr_mirror s (j_p (outputj_trace rt buf file line g)) alsoToStderr g) = Inl err"
  shows "outputj rt s buf file line alsoToStderr g =
           l_exit err (Stderr_Write (j_p (outputj_trace rt buf file line g))
             (stderr_mirror s (j_p (outputj_trace rt buf file line g)) alsoToStderr g))
         \<and> last (Stderr (final (outputj rt s buf file line alsoToStderr g)))
             = j_p (outputj_trace rt buf file line g)
         \<and> \<not> is_Returned (outputj rt s buf file line alsoToStderr g)"
  using assms
  by (simp add: outputj_def Let_def outputj_write_def ensure_file_def l_exit_def)

text \<open>
  The first FATAL record of the concrete run: the FATAL file is not open and cannot be
  created.  FATAL is at the stderr threshold, so the record is on standard error twice.
\<close>

theorem file_creation_failure_witness:
  "outputj rt0 fatalLog j0 ''main.go'' 12 False g0
     = LogExit ''disk full'' (g0\<lparr>Stderr := [j_p j0, j_p j0]\<rparr>)
   \<and> last (Stderr (final (outputj rt0 fatalLog j0 ''main.go'' 12 False g0))) = j_p j0"
proof -
  have tr: "outputj_trace rt0 j0 ''main.go'' 12 g0 = j0"
    by (simp add: g0_def)
  have h: "flag_Parsed g0" "\<not> l_toStderr g0" "l_file g0 fatalLog = None"
    "rt_createFiles rt0 fatalLog
       (stderr_mirror fatalLog (j_p (outputj_trace rt0 j0 ''main.go'' 12 g0)) False g0) = Inl ''disk full''"
    by (simp_all add: g0_def rt0_def)
  show ?thesis
    using file_creation_failure [OF h]
    by (simp add: tr l_exit_def stderr_mirror_def Stderr_Write_def) (simp add: g0_def)
qed

subsection \<open>The string encoder\<close>

lemma DecodeRuneInString_size:
  "s \<noteq> [] \<Longrightarrow> 1 \<le> snd (DecodeRuneInString s)"
  by (cases s) (simp_all add: DecodeRuneInString_def)

text \<open>
  One round of the loop of \<open>string\<close>: it moves \<open>i\<close> forward and appends some bytes \<open>f\<close>,
  which do not depend on the buffer.
\<close>

lemma string_loop_step:
  assumes "i < length s"
  shows "\<exists>i' start' f. i < i' \<and> (\<forall>p. string_loop s e i start p = string_loop s e i' start' (p @ f))"
proof -
  let ?c = "fst (DecodeRuneInString (drop i s))"
  let ?n = "snd (DecodeRuneInString (drop i s))"
  have n: "i < i + ?n"
    using assms DecodeRuneInString_size [of "drop i s"] by simp
  consider
      (safe) "byte (s ! i) < RuneSelf" "htmlSafeSet (s ! i) \<or> (\<not> e \<and> safeSet (s ! i))"
    | (escape) "byte (s ! i) < RuneSelf" "\<not> (htmlSafeSet (s ! i) \<or> (\<not> e \<and> safeSet (s ! i)))"
    | (invalid) "\<not> byte (s ! i) < RuneSelf" "?c = RuneError \<and> ?n = 1"
    | (separator) "\<not> byte (s ! i) < RuneSelf" "\<not> (?c = RuneError \<and> ?n = 1)"
        "?c = 0x2028 \<or> ?c = 0x2029"
    | (other) "\<not> byte (s ! i) < RuneSelf" "\<not> (?c = RuneError \<and> ?n = 1)"
        "\<not> (?c = 0x2028 \<or> ?c = 0x2029)"
    by blast
  then show ?thesis
  proof cases
    case safe
    have "string_loop s e i start p = string_loop s e (i + 1) start (p @ [])" for p
      using assms safe by (subst string_loop.simps) simp
    then show ?thesis
      by (intro exI [of _ "i + 1"] exI [of _ start] exI [of _ "[]"]) simp
  next
    case escape
    have "string_loop s e i start p
        = string_loop s e (i + 1) (i + 1) (p @ (append_pending s start i [] @ escape_byte (s ! i)))" for p
      using assms escape by (subst string_loop.simps) (auto simp add: append_pending_def)
    then show ?thesis
      by (intro exI [of _ "i + 1"] exI [of _ "i + 1"]
          exI [of _ "append_pending s start i [] @ escape_byte (s ! i)"]) simp
  next
    case invalid
    have "string_loop s e i start p
        = string_loop s e (i + ?n) (i + ?n)
            (p @ (append_pending s start i []
                  @ [backslash, CHR ''u'', CHR ''f'', CHR ''f'', CHR ''f'', CHR ''d'']))" for p
      using assms invalid by (subst string_loop.simps) (auto simp add: append_pending_def)
    then show ?thesis
      using n by (intro exI [of _ "i + ?n"] exI [of _ "i + ?n"]
          exI [of _ "append_pending s start i []
                  @ [backslash, CHR ''u'', CHR ''f'', CHR ''f'', CHR ''f'', CHR ''d'']"]) simp
  next
    case separator
    have "string_loop s e i start p
        = string_loop s e (i + ?n) (i + ?n)
            (p @ (append_pending s start i []
                  @ [backslash, CHR ''u'', CHR ''2'', CHR ''0'', CHR ''2'', hex ! (?c mod 16)]))" for p
      using assms separator by (subst string_loop.simps) (auto simp add: append_pending_def)
    then show ?thesis
      using n by (intro exI [of _ "i + ?n"] exI [of _ "i + ?n"]
          exI [of _ "append_pending s start i []
                  @ [backslash, CHR ''u'', CHR ''2'', CHR ''0'', CHR ''2'', hex ! (?c mod 16)]"]) simp
  next
    case other
    have "string_loop s e i start p = string_loop s e (i + ?n) start (p @ [])" for p
      using assms other by (subst string_loop.simps) auto
    then show ?thesis
      using n by (intro exI [of _ "i + ?n"] exI [of _ start] exI [of _ "[]"]) simp
  qed
qed

text \<open>The encoder only appends: what the buffer held stays in front.\<close>

lemma string_loop_acc:
  "string_loop s e i start p = p @ string_loop s e i start []"
proof (induction "length s - i" arbitrary: i start p rule: less_induct)
  case less
  show ?case
  proof (cases "i < length s")
    case False
    then show ?thesis
      by (simp add: string_loop.simps [of s e i])
  next
    case True
    from string_loop_step [OF True, of e start]
    obtain i' start' f where i': "i < i'"
      and step: "\<And>p. string_loop s e i start p = string_loop s e i' start' (p @ f)"
      by blast
    have IH: "string_loop s e i' start' q = q @ string_loop s e i' start' []" for q
      using True i' by (intro less.hyps) simp
    have "string_loop s e i start p = (p @ f) @ string_loop s e i' start' []"
      using step [of p] IH [of "p @ f"] by simp
    moreover have "string_loop s e i start [] = f @ string_loop s e i' start' []"
      using step [of "[]"] IH [of f] by simp
    ultimately show ?thesis
      by simp
  qed
qed

lemma j_string_p:
  "j_p (j_string s e j) = j_p j @ [dquote] @ string_loop s e 0 0 [] @ [dquote]"
  by (simp add: j_string_def string_loop_acc [of s e 0 0 "j_p j @ [dquote]"])

lemma j_string_proj [simp]:
  "j_s (j_string s e j) = j_s j" "j_file (j_string s e j) = j_file j"
  "j_line (j_string s e j) = j_line j" "j_buf (j_string s e j) = j_buf j"
  by (simp_all add: j_string_def)

text \<open>The facts that evaluate the encoder on a string that is written out.\<close>

lemmas string_eval =
  string_loop.simps byte_def RuneSelf_def RuneError_def htmlSafeSet_def safeSet_def
  dquote_def backslash_def append_pending_def escape_byte_def hex_def

subsection \<open>Claim C10: the keys of the fields\<close>

text \<open>
  Claim C10.  \<open>Err\<close> writes its value under the fixed key \<open>"error"\<close> and does not read
  \<open>JFieldPrefix\<close>; the builders that take a name (\<open>Int64\<close>, \<open>Uint64\<close>, \<open>Float64\<close>, \<open>Bool\<close>,
  \<open>Str\<close>, \<open>Strs\<close>) write the key \<open>JFieldPrefix\<close> followed by the name (the test
  \<open>JFieldPrefix != ""\<close> only skips appending nothing).
\<close>

theorem field_keys:
  "Err g err (Some j) =
     Some (j_string err (JEscapeHTML g)
            (j\<lparr>j_p := j_p j @ [CHR '','', dquote] @ ''error'' @ [dquote, CHR '':'']\<rparr>))
   \<and> Err (g\<lparr>JFieldPrefix := prefix\<rparr>) err (Some j) = Err g err (Some j)
   \<and> Int64 g name i (Some j) =
       Some (j\<lparr>j_p := AppendInt (j_p j @ [CHR '','', dquote] @ JFieldPrefix g @ name @ [dquote, CHR '':'']) i\<rparr>)
   \<and> Uint64 g name n (Some j) =
       Some (j\<lparr>j_p := AppendUint (j_p j @ [CHR '','', dquote] @ JFieldPrefix g @ name @ [dquote, CHR '':'']) n\<rparr>)
   \<and> Float64 AppendFloat g name f (Some j) =
       Some (j\<lparr>j_p := AppendFloat (j_p j @ [CHR '','', dquote] @ JFieldPrefix g @ name @ [dquote, CHR '':'']) f 64\<rparr>)
   \<and> Bool g name b (Some j) =
       Some (j\<lparr>j_p := j_p j @ [CHR '','', dquote] @ JFieldPrefix g @ name @ [dquote, CHR '':'']
                     @ (if b then ''true'' else ''false'')\<rparr>)
   \<and> Str g name s (Some j) =
       Some (j_string s (JEscapeHTML g)
              (j\<lparr>j_p := j_p j @ [CHR '','', dquote] @ JFieldPrefix g @ name @ [dquote, CHR '':'']\<rparr>))
   \<and> Strs g name ss (Some j) =
       Some (j_append
              (Strs_loop (JEscapeHTML g) ss
                (j\<lparr>j_p := j_p j @ [dquote] @ JFieldPrefix g @ name @ [dquote, CHR '':'', CHR ''['']\<rparr>))
              [CHR '']'', CHR '',''])"
  by (simp add: Let_def j_append_def j_AppendInt_def j_AppendUint_def)

text \<open>With the prefix \<open>x_\<close>, on the handle of the concrete run.\<close>

theorem field_keys_witness:
  \<open>map_option j_p (Int64 (g0\<lparr>JFieldPrefix := ''x_''\<rparr>) ''n'' 7 (Some j0))
     = Some (j0_bytes @ '',"x_n":7'')
   \<and> map_option j_p (Err (g0\<lparr>JFieldPrefix := ''x_''\<rparr>) ''e'' (Some j0))
     = Some (j0_bytes @ '',"error":"e"'')\<close>
  using field_keys [of "g0\<lparr>JFieldPrefix := ''x_''\<rparr>" "''e''" j0 "''x_''" "''n''" 7]
  by (simp add: j0_p j_string_p AppendInt_def decimal.simps digits_def string_eval)

subsection \<open>Claim C9: the \<open>message\<close> field\<close>

text \<open>
  Claim C9 says that every record ends with a \<open>message\<close> field, for every string passed
  to \<open>Msg\<close>, the empty one included.  \<open>Msg\<close> appends the field under the test \<open>s != ""\<close>:
  with the empty string the record of the concrete run is closed right after \<open>line\<close>.
\<close>

theorem empty_message_has_no_field:
  \<open>j_p (Msg_record [] j0) = j0_bytes @ ''}'' @ [CHR 0x0A]
   \<and> \<not> (\<exists>v. j_p (Msg_record [] j0) = j_p j0 @ '',"message":'' @ v @ ''}'' @ [CHR 0x0A])\<close>
  by (simp add: Msg_record_def j0_p)

text \<open>
  Claim C9, amended.  For every message that is not empty, the record \<open>Msg\<close> hands to the
  sink is the header and the caller's fields, then the key \<open>"message"\<close> with the message
  as a JSON string (encoded without HTML escaping), then the closing brace and a newline.
  For the empty message it is the header and the caller's fields, then the closing brace
  and a newline, with no \<open>message\<close> field.
\<close>

theorem message_field_last:
  \<open>j_p (Msg_record s j) =
     j_p j
     @ (if s = [] then []
        else '',"message":'' @ [dquote] @ string_loop s False 0 0 [] @ [dquote])
     @ ''}'' @ [CHR 0x0A]\<close>
  by (simp add: Msg_record_def j_string_p dquote_def)

theorem message_field_last_witness:
  \<open>j_p (Msg_record ''hello'' j0) = j0_bytes @ '',"message":"hello"}'' @ [CHR 0x0A]\<close>
  using message_field_last [of "''hello''" j0]
  by (simp add: j0_p string_eval)

subsection \<open>Claim C4: a record with a field built by \<open>Strs\<close>\<close>

text \<open>
  What \<open>Strs\<close> appends for two strings: the key comes without the comma that separates it
  from the field before it, and a comma follows the closing bracket.
\<close>

lemma Strs_bytes:
  \<open>map_option j_p (Strs g ''k'' [''a'', ''b''] (Some j))
     = Some (j_p j @ [dquote] @ JFieldPrefix g @ ''k":["a","b"],'')\<close>
  by (simp add: Let_def j_string_p string_eval)

text \<open>
  Claim C4 says that every emitted record is valid JSON, in particular one with a field
  added by \<open>Strs\<close>, delimited from its neighbours.  The record of
  \<open>JInfo().Strs("k", []string{"a", "b"}).Msg("m")\<close> in the concrete run has no comma
  between \<open>"line":12\<close> and \<open>"k"\<close> and two commas before \<open>"message"\<close>: it is not JSON.
\<close>

theorem Strs_breaks_record:
  \<open>map_option (\<lambda>j. j_p (Msg_record ''m'' j)) (Strs g0 ''k'' [''a'', ''b''] (fst (JInfo rt0 g0)))
     = Some (j0_bytes @ ''"k":["a","b"],,"message":"m"}'' @ [CHR 0x0A])\<close>
proof -
  have "JFieldPrefix g0 = []"
    by (simp add: g0_def)
  then show ?thesis
    using Strs_bytes [of g0 j0]
    by (auto simp add: JInfo_g0 message_field_last j0_p string_eval simp del: Strs.simps)
qed

subsection \<open>Claim C5: escaping in the message\<close>

text \<open>
  Claim C5 says that a message with a quote, a backslash, a newline, the byte \<open>0x01\<close> and
  U+2028 or U+2029 is escaped, and that with \<open>JEscapeHTML\<close> set the emitted message has no
  literal \<open><\<close>, \<open>>\<close> or \<open>&\<close>.  \<open>Msg\<close> calls \<open>j.string(s, false)\<close>, where \<open>Err\<close>, \<open>Str\<close> and
  \<open>Strs\<close> pass \<open>JEscapeHTML\<close>: in the concrete run \<open>JEscapeHTML\<close> is set, and the record
  that \<open>Msg("<a&b>")\<close> writes to the INFO file has the three characters as they are.
\<close>

theorem Msg_ignores_JEscapeHTML:
  \<open>JEscapeHTML g0
   \<and> l_file (final (Msg rt0 ''<a&b>'' (fst (JInfo rt0 g0)) g0)) infoLog
       = Some [j0_bytes @ '',"message":"<a&b>"}'' @ [CHR 0x0A]]\<close>
proof -
  have "JEscapeHTML g0"
    by (simp add: g0_def)
  moreover have \<open>j_p (Msg_record ''<a&b>'' j0) = j0_bytes @ '',"message":"<a&b>"}'' @ [CHR 0x0A]\<close>
    by (simp add: message_field_last j0_p string_eval)
  ultimately show ?thesis
    by (simp add: JInfo_g0 Msg_g0 del: Msg.simps)
qed

text \<open>The same string as the value of a \<open>Str\<close> field is escaped.\<close>

lemma Str_escapes_html:
  \<open>map_option j_p (Str g0 ''k'' ''<a&b>'' (Some j0))
     = Some (j0_bytes @ '',"k":"'' @ [backslash] @ ''u003ca'' @ [backslash] @ ''u0026b''
             @ [backslash] @ ''u003e"'')\<close>
  by (simp add: Let_def j_string_p j0_p g0_def string_eval)

text \<open>
  The first half of the claim on the code: a message with a quote, a backslash, a
  newline, the byte \<open>0x01\<close>, U+2028 and U+2029 comes out with each of them escaped.
\<close>

lemma Msg_escapes_specials:
  \<open>string_loop [dquote, backslash, CHR 0x0A, CHR 0x01, CHR 0xE2, CHR 0x80, CHR 0xA8,
                 CHR 0xE2, CHR 0x80, CHR 0xA9] False 0 0 []
     = [backslash, dquote, backslash, backslash, backslash, CHR ''n'']
       @ [backslash] @ ''u0001'' @ [backslash] @ ''u2028'' @ [backslash] @ ''u2029''\<close>
  by (simp add: string_eval DecodeRuneInString_def utf8_first_def acceptRanges_def)

end
